theory Spec2Isabelle
  imports Main
begin

section \<open>The documentation header \<open>src/docs/website_docs.h\<close>\<close>

text \<open>
  The repository's only source file is a header that holds three documentation comment
  blocks and nothing else. It is embedded as the text it is: the characters of the file,
  with \<open>nl\<close> for the line feed. The file has a line feed after every line but the last
  one, which is the closing \<open>*/\<close> of the third block.
\<close>

definition nl :: char where
  "nl = CHR 0x0A"

definition website_docs :: string where
  "website_docs =
     ''/**'' @ [nl] @
     ''@defgroup frontend Frontend Application'' @ [nl] @
     ''@brief React-based user interface components'' @ [nl] @
     ''@details The frontend provides visualization and interaction with the analysis system.'' @ [nl] @
     ''*/'' @ [nl] @
     '''' @ [nl] @
     ''/**'' @ [nl] @
     ''@defgroup components UI Components'' @ [nl] @
     ''@ingroup frontend'' @ [nl] @
     ''@brief Reusable React components'' @ [nl] @
     ''*/'' @ [nl] @
     '''' @ [nl] @
     ''/**'' @ [nl] @
     ''@defgroup utilities Utilities'' @ [nl] @
     ''@ingroup frontend'' @ [nl] @
     ''@brief Shared utility functions and hooks'' @ [nl] @
     ''*/''"

section \<open>Lines and comment blocks\<close>

text \<open>
  \<open>split_lines\<close> cuts a text at its line feeds: a text with \<open>n\<close> line feeds has \<open>n + 1\<close>
  lines, the last of which is what follows the last line feed. \<open>line_feeds\<close> counts the
  line feeds themselves.
\<close>

fun split_lines :: "string \<Rightarrow> string list" where
  "split_lines [] = [[]]"
| "split_lines (c # cs) =
     (if c = nl then [] # split_lines cs
      else (case split_lines cs of
              [] \<Rightarrow> [[c]]
            | l # ls \<Rightarrow> (c # l) # ls))"

definition line_feeds :: "string \<Rightarrow> nat" where
  "line_feeds s = length (filter (\<lambda>c. c = nl) s)"

text \<open>
  A documentation comment block opens with a line \<open>/**\<close> and closes with the next line
  \<open>*/\<close>. \<open>comment_blocks\<close> returns the lines strictly inside each block, in the order of
  the file; the first argument is the block being read, if any, most recent line first.
  \<open>outside_lines\<close> returns the lines that belong to no block (neither inside one nor one
  of its two delimiters): that is where declarations of the language itself would stand.
\<close>

fun comment_blocks :: "string list option \<Rightarrow> string list \<Rightarrow> string list list" where
  "comment_blocks None [] = []"
| "comment_blocks (Some cur) [] = [rev cur]"
| "comment_blocks None (l # ls) =
     (if l = ''/**'' then comment_blocks (Some []) ls else comment_blocks None ls)"
| "comment_blocks (Some cur) (l # ls) =
     (if l = ''*/'' then rev cur # comment_blocks None ls
      else comment_blocks (Some (l # cur)) ls)"

fun outside_lines :: "bool \<Rightarrow> string list \<Rightarrow> string list" where
  "outside_lines inside [] = []"
| "outside_lines False (l # ls) =
     (if l = ''/**'' then outside_lines True ls else l # outside_lines False ls)"
| "outside_lines True (l # ls) =
     (if l = ''*/'' then outside_lines False ls else outside_lines True ls)"

section \<open>Annotations and group declarations\<close>

text \<open>
  Inside a block every line of the file is one annotation: the command word up to the
  first blank, then its argument. \<open>@defgroup\<close> takes the group's identifier (one word)
  and its title (the rest of the line); \<open>@ingroup\<close> names the parent group; \<open>@brief\<close> and
  \<open>@details\<close> carry the short and the long description. Any other line is kept as
  \<open>Plain\<close>.
\<close>

datatype annotation =
    Defgroup string string
  | Ingroup string
  | Brief string
  | Details string
  | Plain string

definition first_word :: "string \<Rightarrow> string" where
  "first_word s = takeWhile (\<lambda>c. c \<noteq> CHR '' '') s"

definition after_first_word :: "string \<Rightarrow> string" where
  "after_first_word s = drop 1 (dropWhile (\<lambda>c. c \<noteq> CHR '' '') s)"

definition parse_line :: "string \<Rightarrow> annotation" where
  "parse_line s =
     (let cmd = first_word s; arg = after_first_word s in
      if cmd = ''@defgroup'' then Defgroup (first_word arg) (after_first_word arg)
      else if cmd = ''@ingroup'' then Ingroup arg
      else if cmd = ''@brief'' then Brief arg
      else if cmd = ''@details'' then Details arg
      else Plain s)"

text \<open>
  A group declaration as the file writes it. The parent references and the two kinds of
  description are kept as the lists of the annotations found in the block, so that a
  missing or a repeated annotation shows.
\<close>

record group_decl =
  ident :: string
  title :: string
  ingroup :: "string list"
  brief :: "string list"
  details :: "string list"
  plain :: "string list"

fun defgroups :: "annotation list \<Rightarrow> (string \<times> string) list" where
  "defgroups [] = []"
| "defgroups (Defgroup i t # as) = (i, t) # defgroups as"
| "defgroups (a # as) = defgroups as"

fun ingroups :: "annotation list \<Rightarrow> string list" where
  "ingroups [] = []"
| "ingroups (Ingroup p # as) = p # ingroups as"
| "ingroups (a # as) = ingroups as"

fun briefs :: "annotation list \<Rightarrow> string list" where
  "briefs [] = []"
| "briefs (Brief b # as) = b # briefs as"
| "briefs (a # as) = briefs as"

fun detailss :: "annotation list \<Rightarrow> string list" where
  "detailss [] = []"
| "detailss (Details d # as) = d # detailss as"
| "detailss (a # as) = detailss as"

fun plains :: "annotation list \<Rightarrow> string list" where
  "plains [] = []"
| "plains (Plain p # as) = p # plains as"
| "plains (a # as) = plains as"

text \<open>
  A block declares a group when it holds exactly one \<open>@defgroup\<close>; each such block gives
  one declaration, in the order of the file.
\<close>

definition decl_of_block :: "string list \<Rightarrow> group_decl option" where
  "decl_of_block b =
     (let as = map parse_line b in
      case defgroups as of
        [(i, t)] \<Rightarrow>
          Some \<lparr>ident = i, title = t, ingroup = ingroups as, brief = briefs as,
                details = detailss as, plain = plains as\<rparr>
      | _ \<Rightarrow> None)"

definition blocks_of :: "string \<Rightarrow> string list list" where
  "blocks_of src = comment_blocks None (split_lines src)"

definition declared_groups :: "string \<Rightarrow> group_decl list" where
  "declared_groups src = List.map_filter decl_of_block (blocks_of src)"

text \<open>
  The parent/child relation the declarations state: a pair \<open>(p, c)\<close> for every \<open>@ingroup p\<close>
  in the declaration of \<open>c\<close>. A root is a declared group with no parent reference.
\<close>

definition parent_child :: "group_decl list \<Rightarrow> (string \<times> string) list" where
  "parent_child ds = concat (map (\<lambda>d. map (\<lambda>p. (p, ident d)) (ingroup d)) ds)"

definition roots :: "group_decl list \<Rightarrow> string list" where
  "roots ds = map ident (filter (\<lambda>d. ingroup d = []) ds)"

definition undeclared_parents :: "group_decl list \<Rightarrow> string list" where
  "undeclared_parents ds =
     filter (\<lambda>p. p \<notin> set (map ident ds)) (concat (map ingroup ds))"

text \<open>
  \<open>inside_lines\<close> is the complement of \<open>outside_lines\<close>: the lines of the comment blocks,
  delimiters included. \<open>annotation_lines\<close> finds the lines of a text that start with a
  given command word.
\<close>

fun inside_lines :: "bool \<Rightarrow> string list \<Rightarrow> string list" where
  "inside_lines inside [] = []"
| "inside_lines False (l # ls) =
     (if l = ''/**'' then l # inside_lines True ls else inside_lines False ls)"
| "inside_lines True (l # ls) =
     (if l = ''*/'' then l # inside_lines False ls else l # inside_lines True ls)"

definition annotation_lines :: "string \<Rightarrow> string \<Rightarrow> string list" where
  "annotation_lines cmd src = filter (\<lambda>l. first_word l = cmd) (split_lines src)"

text \<open>The groups the header declares.\<close>

definition groups :: "group_decl list" where
  "groups = declared_groups website_docs"

section \<open>Reading the header\<close>

lemma website_docs_lines:
  "split_lines website_docs =
     [''/**'',
      ''@defgroup frontend Frontend Application'',
      ''@brief React-based user interface components'',
      ''@details The frontend provides visualization and interaction with the analysis system.'',
      ''*/'',
      '''',
      ''/**'',
      ''@defgroup components UI Components'',
      ''@ingroup frontend'',
      ''@brief Reusable React components'',
      ''*/'',
      '''',
      ''/**'',
      ''@defgroup utilities Utilities'',
      ''@ingroup frontend'',
      ''@brief Shared utility functions and hooks'',
      ''*/'']"
  by (simp add: website_docs_def nl_def)

lemma website_docs_blocks:
  "blocks_of website_docs =
     [[''@defgroup frontend Frontend Application'',
       ''@brief React-based user interface components'',
       ''@details The frontend provides visualization and interaction with the analysis system.''],
      [''@defgroup components UI Components'',
       ''@ingroup frontend'',
       ''@brief Reusable React components''],
      [''@defgroup utilities Utilities'',
       ''@ingroup frontend'',
       ''@brief Shared utility functions and hooks'']]"
  unfolding blocks_of_def website_docs_lines by simp

lemma groups_of_website_docs:
  "groups =
     [\<lparr>ident = ''frontend'', title = ''Frontend Application'', ingroup = [],
       brief = [''React-based user interface components''],
       details = [''The frontend provides visualization and interaction with the analysis system.''],
       plain = []\<rparr>,
      \<lparr>ident = ''components'', title = ''UI Components'', ingroup = [''frontend''],
       brief = [''Reusable React components''], details = [], plain = []\<rparr>,
      \<lparr>ident = ''utilities'', title = ''Utilities'', ingroup = [''frontend''],
       brief = [''Shared utility functions and hooks''], details = [], plain = []\<rparr>]"
  unfolding groups_def declared_groups_def website_docs_blocks
  by (simp add: List.map_filter_def decl_of_block_def parse_line_def first_word_def
      after_first_word_def)

lemma website_docs_line_feeds: "line_feeds website_docs = 16"
  by (simp add: line_feeds_def website_docs_def nl_def)

section \<open>The declared taxonomy\<close>

text \<open>
  C2. The identifiers of the declared groups are \<open>frontend\<close>, \<open>components\<close> and
  \<open>utilities\<close>, and no two declared groups share an identifier.
\<close>

theorem group_identifiers_unique:
  "map ident groups = [''frontend'', ''components'', ''utilities''] \<and>
   distinct (map ident groups)"
  by (simp add: groups_of_website_docs)

text \<open>
  C3. Every parent reference names a declared group: no \<open>@ingroup\<close> of the header refers
  to an identifier that is not declared. The references are those of \<open>components\<close> and of
  \<open>utilities\<close>, both to \<open>frontend\<close>, which is declared.
\<close>

theorem ingroup_references_declared:
  "undeclared_parents groups = [] \<and>
   map (\<lambda>d. (ident d, ingroup d)) groups =
     [(''frontend'', []), (''components'', [''frontend'']), (''utilities'', [''frontend''])] \<and>
   ''frontend'' \<in> set (map ident groups)"
  by (simp add: groups_of_website_docs undeclared_parents_def)

text \<open>
  C4. Every declared group carries exactly one \<open>@brief\<close> annotation: the header has three
  \<open>@brief\<close> lines, one in each declaration, and the declarations of \<open>frontend\<close>,
  \<open>components\<close> and \<open>utilities\<close> each hold one short description string.
\<close>

theorem one_brief_per_group:
  "length (annotation_lines ''@brief'' website_docs) = 3 \<and>
   map (\<lambda>d. length (brief d)) groups = [1, 1, 1] \<and>
   map (\<lambda>d. (ident d, brief d)) groups =
     [(''frontend'', [''React-based user interface components'']),
      (''components'', [''Reusable React components'']),
      (''utilities'', [''Shared utility functions and hooks''])]"
  unfolding annotation_lines_def website_docs_lines
  by (simp add: groups_of_website_docs first_word_def)

text \<open>
  C7. In the declared taxonomy \<open>components\<close> and \<open>utilities\<close> are each a child of
  \<open>frontend\<close>, \<open>frontend\<close> is the one group with no parent, and the parent/child relation
  is exactly \<open>{(frontend, components), (frontend, utilities)}\<close>.
\<close>

theorem declared_parent_child_relation:
  "set (parent_child groups) =
     {(''frontend'', ''components''), (''frontend'', ''utilities'')} \<and>
   parent_child groups = [(''frontend'', ''components''), (''frontend'', ''utilities'')] \<and>
   roots groups = [''frontend'']"
  by (simp add: groups_of_website_docs parent_child_def roots_def)

text \<open>
  C8. Every comment block of the header is a group declaration, and every declaration
  consists of an identifier, a title, at most one parent reference and a free-text
  description, with no other line: \<open>frontend\<close> has no parent reference, \<open>components\<close> and
  \<open>utilities\<close> have one each.
\<close>

theorem group_declaration_shape:
  "length (blocks_of website_docs) = 3 \<and> length groups = 3 \<and>
   map (\<lambda>d. (ident d, title d, ingroup d, brief d @ details d, plain d)) groups =
     [(''frontend'', ''Frontend Application'', [],
       [''React-based user interface components'',
        ''The frontend provides visualization and interaction with the analysis system.''], []),
      (''components'', ''UI Components'', [''frontend''],
       [''Reusable React components''], []),
      (''utilities'', ''Utilities'', [''frontend''],
       [''Shared utility functions and hooks''], [])]"
  unfolding website_docs_blocks by (simp add: groups_of_website_docs)

text \<open>
  C10. Exactly one declared group, \<open>frontend\<close>, carries a \<open>@details\<close> annotation: the
  header has one \<open>@details\<close> line, in the declaration of \<open>frontend\<close>; \<open>components\<close> and
  \<open>utilities\<close> have a \<open>@brief\<close> and no \<open>@details\<close>.
\<close>

theorem details_only_on_frontend:
  "length (annotation_lines ''@details'' website_docs) = 1 \<and>
   map ident (filter (\<lambda>d. details d \<noteq> []) groups) = [''frontend''] \<and>
   map (\<lambda>d. (ident d, length (brief d), length (details d))) groups =
     [(''frontend'', 1, 1), (''components'', 1, 0), (''utilities'', 1, 0)]"
  unfolding annotation_lines_def website_docs_lines
  by (simp add: groups_of_website_docs first_word_def)

section \<open>The header as a whole\<close>

text \<open>
  C9, as stated: the header has exactly 16 lines and all of them are documentation
  comments. It does not hold: the text has 17 lines, and two of them (the sixth and the
  twelfth) are empty lines outside the comment blocks.
\<close>

theorem sixteen_comment_lines_counterexample:
  "length (split_lines website_docs) \<noteq> 16 \<and>
   outside_lines False (split_lines website_docs) \<noteq> []"
  unfolding website_docs_lines by simp

text \<open>
  C9, amended: the header has 17 lines, separated by 16 line feeds (the last line has
  none); 15 lines make up the three documentation comment blocks and the other 2 are
  empty. So there is no text outside the comment blocks, and inside them every line is
  an annotation of a group declaration: the header declares no function, contract, error
  condition or side effect.
\<close>

theorem website_docs_documentation_only:
  "length (split_lines website_docs) = 17 \<and>
   line_feeds website_docs = 16 \<and>
   length (inside_lines False (split_lines website_docs)) = 15 \<and>
   outside_lines False (split_lines website_docs) = ['''', ''''] \<and>
   concat (outside_lines False (split_lines website_docs)) = [] \<and>
   length (blocks_of website_docs) = length groups \<and>
   concat (map plain groups) = []"
  unfolding website_docs_blocks website_docs_lines
  by (simp add: groups_of_website_docs website_docs_line_feeds)

end
